theory Spec2Isabelle
  imports Complex_Main "HOL-Library.AList" "HOL-Library.Sublist"
begin

section \<open>Python values and documents\<close>

text \<open>
  The values that occur in the documents of \<^verbatim>\<open>main.py\<close>: \<^verbatim>\<open>None\<close>, booleans, integers,
  floats (only compared, never computed with, hence modelled by their real value), strings,
  store identifiers (a \<^verbatim>\<open>bson.ObjectId\<close> is 12 bytes, modelled by the number they encode),
  lists and dictionaries. A dictionary is an association list in insertion order, as a
  Python \<^verbatim>\<open>dict\<close> is.
\<close>

datatype pyval =
    VNone
  | VBool bool
  | VInt int
  | VFloat real
  | VStr string
  | VObjectId nat
  | VList "pyval list"
  | VDict "(string \<times> pyval) list"

type_synonym doc = "(string \<times> pyval) list"

text \<open>Python's truth value of an object, as \<^verbatim>\<open>if x\<close> and \<^verbatim>\<open>not x\<close> test it.\<close>

fun truthy :: "pyval \<Rightarrow> bool" where
  "truthy VNone = False"
| "truthy (VBool b) = b"
| "truthy (VInt i) = (i \<noteq> 0)"
| "truthy (VFloat r) = (r \<noteq> 0)"
| "truthy (VStr s) = (s \<noteq> [])"
| "truthy (VObjectId oid) = True"
| "truthy (VList xs) = (xs \<noteq> [])"
| "truthy (VDict kvs) = (kvs \<noteq> [])"

text \<open>\<^verbatim>\<open>doc.get(k)\<close>: the value under the key, \<^verbatim>\<open>None\<close> when the key is absent.\<close>

definition get :: "doc \<Rightarrow> string \<Rightarrow> pyval" where
  "get d k = (case map_of d k of None \<Rightarrow> VNone | Some v \<Rightarrow> v)"

section \<open>Serialization\<close>

text \<open>
  \<^verbatim>\<open>
  def serialize_doc(doc: dict):
      if not doc:
          return doc
      doc["id"] = str(doc.pop("_id")) if doc.get("_id") else None
      return doc
  \<close>
  The builtin \<^verbatim>\<open>str\<close> is a parameter. The conditional expression is evaluated before the
  assignment, so \<^verbatim>\<open>_id\<close> is popped first and \<^verbatim>\<open>id\<close> is written after: updated in place when
  the key exists, appended otherwise.
\<close>

definition serialize_doc :: "(pyval \<Rightarrow> string) \<Rightarrow> doc \<Rightarrow> doc" where
  "serialize_doc str d =
     (if d = [] then d
      else if truthy (get d ''_id'')
        then AList.update ''id'' (VStr (str (get d ''_id''))) (AList.delete ''_id'' d)
        else AList.update ''id'' VNone d)"

section \<open>Errors\<close>

text \<open>
  Every exception the program can raise is a value. \<^verbatim>\<open>HTTPException\<close> carries the status
  code and the detail that \<^verbatim>\<open>main.py\<close> gives it. \<^verbatim>\<open>RequestValidationError\<close> is what FastAPI
  raises when a query parameter or a request body violates the declared shape, before the
  handler body runs. \<^verbatim>\<open>InvalidId\<close> is raised by \<^verbatim>\<open>bson.ObjectId\<close>, \<^verbatim>\<open>DuplicateKeyError\<close> by the
  store. \<^verbatim>\<open>NotModelled\<close> marks a query outside the fragment of the store's query language
  that this theory gives a meaning to.
\<close>

datatype error =
    HTTPException nat string
  | RequestValidationError
  | InvalidId
  | DuplicateKeyError
  | NotModelled

text \<open>
  The status of the response. \<^verbatim>\<open>main.py\<close> installs no exception handler of its own, so
  FastAPI's defaults apply: an \<^verbatim>\<open>HTTPException\<close> answers with its own status code, a
  \<^verbatim>\<open>RequestValidationError\<close> with 422, any other exception with 500, a returned value
  with 200.
\<close>

fun status_code :: "error + 'a \<Rightarrow> nat" where
  "status_code (Inr r) = 200"
| "status_code (Inl (HTTPException code detail)) = code"
| "status_code (Inl RequestValidationError) = 422"
| "status_code (Inl e) = 500"

section \<open>Store identifiers\<close>

text \<open>
  \<^verbatim>\<open>ObjectId(s)\<close> on a string: the string must be 24 hexadecimal digits, otherwise
  \<^verbatim>\<open>InvalidId\<close> is raised.
\<close>

definition hex_digit :: "char \<Rightarrow> nat option" where
  "hex_digit c =
     (let n = (of_char c :: nat) in
      if 48 \<le> n \<and> n \<le> 57 then Some (n - 48)
      else if 97 \<le> n \<and> n \<le> 102 then Some (n - 87)
      else if 65 \<le> n \<and> n \<le> 70 then Some (n - 55)
      else None)"

fun hex_value :: "nat \<Rightarrow> string \<Rightarrow> nat option" where
  "hex_value acc [] = Some acc"
| "hex_value acc (c # cs) =
     (case hex_digit c of None \<Rightarrow> None | Some v \<Rightarrow> hex_value (16 * acc + v) cs)"

definition ObjectId :: "string \<Rightarrow> error + nat" where
  "ObjectId s =
     (if length s = 24
      then (case hex_value 0 s of None \<Rightarrow> Inl InvalidId | Some n \<Rightarrow> Inr n)
      else Inl InvalidId)"

section \<open>The document store\<close>

text \<open>
  The store is an external collaborator (MongoDB through pymongo). The model keeps each
  collection as the list of its documents in insertion order, and a counter from which
  fresh identifiers are drawn. The handle \<^verbatim>\<open>db\<close> of \<^verbatim>\<open>main.py\<close> is a \<open>database option\<close>:
  \<open>None\<close> when the store is not available.
\<close>

record database =
  colls :: "string \<Rightarrow> doc list"
  next_oid :: nat

subsection \<open>Regular expressions\<close>

text \<open>
  The fragment of the store's regular expressions that is given a meaning: a sequence of
  ordinary characters and dots. A dot matches any character but a newline. Every other
  metacharacter puts the pattern outside the fragment. Letter case is ASCII.
\<close>

datatype regex_item = Lit char | AnyChar

definition regex_metachars :: "char list" where
  "regex_metachars =
     [CHR 0x5C, CHR ''^'', CHR ''$'', CHR ''.'', CHR ''['', CHR '']'', CHR ''|'',
      CHR ''('', CHR '')'', CHR ''?'', CHR ''*'', CHR ''+'', CHR ''{'', CHR ''}'']"

fun regex_compile :: "string \<Rightarrow> regex_item list option" where
  "regex_compile [] = Some []"
| "regex_compile (c # cs) =
     (if c = CHR ''.'' then map_option ((#) AnyChar) (regex_compile cs)
      else if c \<in> set regex_metachars then None
      else map_option ((#) (Lit c)) (regex_compile cs))"

definition to_lower :: "char \<Rightarrow> char" where
  "to_lower c =
     (let n = (of_char c :: nat) in if 65 \<le> n \<and> n \<le> 90 then char_of (n + 32) else c)"

fun item_matches :: "bool \<Rightarrow> regex_item \<Rightarrow> char \<Rightarrow> bool" where
  "item_matches ci (Lit a) c = (if ci then to_lower a = to_lower c else a = c)"
| "item_matches ci AnyChar c = (c \<noteq> CHR 0x0A)"

fun match_here :: "bool \<Rightarrow> regex_item list \<Rightarrow> string \<Rightarrow> bool" where
  "match_here ci [] s = True"
| "match_here ci (t # ts) [] = False"
| "match_here ci (t # ts) (c # cs) = (item_matches ci t c \<and> match_here ci ts cs)"

text \<open>An unanchored search: the pattern may match at any position of the subject.\<close>

fun regex_search :: "bool \<Rightarrow> regex_item list \<Rightarrow> string \<Rightarrow> bool" where
  "regex_search ci ts [] = match_here ci ts []"
| "regex_search ci ts (c # cs) = (match_here ci ts (c # cs) \<or> regex_search ci ts cs)"

subsection \<open>Filters\<close>

text \<open>
  A filter is a dictionary from field names to conditions. A condition is a value (the
  field must equal it) or an operator document with the operators \<^verbatim>\<open>$gte\<close>, \<^verbatim>\<open>$lte\<close>,
  \<^verbatim>\<open>$regex\<close> and \<^verbatim>\<open>$options\<close>. A condition on a field that holds an array is tested
  against the array and against each of its elements. Numbers compare by value whatever
  their type; an order comparison between a number and a value of another type fails.
\<close>

fun num_of :: "pyval \<Rightarrow> real option" where
  "num_of (VInt i) = Some (of_int i)"
| "num_of (VFloat r) = Some r"
| "num_of v = None"

fun field_values :: "pyval option \<Rightarrow> pyval list" where
  "field_values None = []"
| "field_values (Some (VList xs)) = VList xs # xs"
| "field_values (Some v) = [v]"

definition bson_eq :: "pyval \<Rightarrow> pyval \<Rightarrow> bool" where
  "bson_eq a b =
     (case (num_of a, num_of b) of (Some x, Some y) \<Rightarrow> x = y | _ \<Rightarrow> a = b)"

definition eq_match :: "pyval option \<Rightarrow> pyval \<Rightarrow> bool" where
  "eq_match fv q = (list_ex (\<lambda>x. bson_eq x q) (field_values fv) \<or> (q = VNone \<and> fv = None))"

definition is_op_key :: "string \<Rightarrow> bool" where
  "is_op_key k = (case k of [] \<Rightarrow> False | c # _ \<Rightarrow> c = CHR ''$'')"

definition case_insensitive :: "doc \<Rightarrow> bool" where
  "case_insensitive ops =
     (case map_of ops ''$options'' of Some (VStr os) \<Rightarrow> CHR ''i'' \<in> set os | _ \<Rightarrow> False)"

definition op_match :: "doc \<Rightarrow> pyval \<Rightarrow> string \<times> pyval \<Rightarrow> bool" where
  "op_match ops x op =
     (let (k, arg) = op in
      if k = ''$gte'' then
        (case (num_of x, num_of arg) of (Some a, Some b) \<Rightarrow> b \<le> a | _ \<Rightarrow> False)
      else if k = ''$lte'' then
        (case (num_of x, num_of arg) of (Some a, Some b) \<Rightarrow> a \<le> b | _ \<Rightarrow> False)
      else if k = ''$regex'' then
        (case (x, arg) of
           (VStr s, VStr p) \<Rightarrow>
             (case regex_compile p of
                Some ts \<Rightarrow> regex_search (case_insensitive ops) ts s
              | None \<Rightarrow> False)
         | _ \<Rightarrow> False)
      else k = ''$options'')"

definition op_supported :: "string \<times> pyval \<Rightarrow> bool" where
  "op_supported op =
     (let (k, arg) = op in
      if k = ''$gte'' \<or> k = ''$lte'' then num_of arg \<noteq> None
      else if k = ''$regex'' then
        (case arg of VStr p \<Rightarrow> regex_compile p \<noteq> None | _ \<Rightarrow> False)
      else if k = ''$options'' then arg = VStr ''i'' \<or> arg = VStr []
      else False)"

fun cond_matches :: "pyval option \<Rightarrow> pyval \<Rightarrow> bool" where
  "cond_matches fv (VDict ops) =
     (if list_ex is_op_key (map fst ops)
      then list_all (\<lambda>op. list_ex (\<lambda>x. op_match ops x op) (field_values fv)) ops
      else eq_match fv (VDict ops))"
| "cond_matches fv q = eq_match fv q"

fun cond_supported :: "pyval \<Rightarrow> bool" where
  "cond_supported (VDict ops) =
     (if list_ex is_op_key (map fst ops) then list_all op_supported ops else True)"
| "cond_supported q = True"

definition matches :: "doc \<Rightarrow> doc \<Rightarrow> bool" where
  "matches filt d = list_all (\<lambda>(k, c). cond_matches (map_of d k) c) filt"

definition filter_supported :: "doc \<Rightarrow> bool" where
  "filter_supported filt =
     list_all (\<lambda>(k, c). \<not> is_op_key k \<and> CHR ''.'' \<notin> set k \<and> cond_supported c) filt"

subsection \<open>Collection operations\<close>

definition count_documents :: "database \<Rightarrow> string \<Rightarrow> doc \<Rightarrow> error + nat" where
  "count_documents db name filt =
     (if filter_supported filt then Inr (length (filter (matches filt) (colls db name)))
      else Inl NotModelled)"

definition coll_find :: "database \<Rightarrow> string \<Rightarrow> doc \<Rightarrow> error + doc list" where
  "coll_find db name filt =
     (if filter_supported filt then Inr (filter (matches filt) (colls db name))
      else Inl NotModelled)"

definition find_one :: "database \<Rightarrow> string \<Rightarrow> doc \<Rightarrow> error + doc option" where
  "find_one db name filt =
     (case coll_find db name filt of
        Inl e \<Rightarrow> Inl e
      | Inr ds \<Rightarrow> Inr (case ds of [] \<Rightarrow> None | d # _ \<Rightarrow> Some d))"

text \<open>
  \<^verbatim>\<open>cursor.skip(n)\<close> and \<^verbatim>\<open>cursor.limit(n)\<close>; a limit of 0 is no limit, a negative limit
  bounds the result by its absolute value.
\<close>

definition cursor_skip :: "int \<Rightarrow> doc list \<Rightarrow> doc list" where
  "cursor_skip n ds = drop (nat n) ds"

definition cursor_limit :: "int \<Rightarrow> doc list \<Rightarrow> doc list" where
  "cursor_limit n ds = (if n = 0 then ds else take (nat \<bar>n\<bar>) ds)"

text \<open>
  \<^verbatim>\<open>cursor.sort("_id", -1)\<close>: a stable sort, identifiers descending. The order is that of
  \<^verbatim>\<open>ObjectId\<close>s, the only identifiers this program creates; documents with another kind
  of identifier compare as equal to every document.
\<close>

definition id_after :: "doc \<Rightarrow> doc \<Rightarrow> bool" where
  "id_after a b =
     (case (get a ''_id'', get b ''_id'') of (VObjectId x, VObjectId y) \<Rightarrow> y < x | _ \<Rightarrow> False)"

fun insert_desc :: "doc \<Rightarrow> doc list \<Rightarrow> doc list" where
  "insert_desc d [] = [d]"
| "insert_desc d (e # es) = (if id_after d e then d # e # es else e # insert_desc d es)"

definition sort_id_desc :: "doc list \<Rightarrow> doc list" where
  "sort_id_desc ds = foldr insert_desc ds []"

text \<open>
  \<^verbatim>\<open>insert_one\<close>: a document without \<^verbatim>\<open>_id\<close> gets a fresh \<^verbatim>\<open>ObjectId\<close>, stored as its first
  field; a document that brings its own \<^verbatim>\<open>_id\<close> is stored as it is unless the identifier
  is taken. The result is the identifier and the new store.
\<close>

definition insert_one :: "database \<Rightarrow> string \<Rightarrow> doc \<Rightarrow> (error + pyval) \<times> database" where
  "insert_one db name d =
     (case map_of d ''_id'' of
        None \<Rightarrow>
          (Inr (VObjectId (next_oid db)),
           db\<lparr>colls := (colls db)(name := colls db name @ [(''_id'', VObjectId (next_oid db)) # d]),
              next_oid := Suc (next_oid db)\<rparr>)
      | Some v \<Rightarrow>
          if list_ex (\<lambda>e. map_of e ''_id'' = Some v) (colls db name)
          then (Inl DuplicateKeyError, db)
          else (Inr v, db\<lparr>colls := (colls db)(name := colls db name @ [d])\<rparr>))"

text \<open>\<^verbatim>\<open>insert_many\<close> inserts the documents in order and stops at the first error.\<close>

fun insert_many :: "database \<Rightarrow> string \<Rightarrow> doc list \<Rightarrow> (error + pyval list) \<times> database" where
  "insert_many db name [] = (Inr [], db)"
| "insert_many db name (d # ds) =
     (case insert_one db name d of
        (Inl e, db') \<Rightarrow> (Inl e, db')
      | (Inr i, db') \<Rightarrow>
          (case insert_many db' name ds of
             (Inl e, db'') \<Rightarrow> (Inl e, db'')
           | (Inr is, db'') \<Rightarrow> (Inr (i # is), db'')))"

section \<open>Seed data\<close>

definition sample_products :: "doc list" where
  "sample_products =
     [[(''title'', VStr ''Glass Card Pro''),
       (''description'', VStr ''Premium transparent credit card with NFC and rewards.''),
       (''price'', VFloat 199),
       (''category'', VStr ''Cards''),
       (''stock'', VInt 50),
       (''rating'', VFloat 4.8),
       (''images'', VList
          [VStr ''https://images.unsplash.com/photo-1556742393-d75f468bfcb0?auto=format&fit=crop&w=1200&q=60'',
           VStr ''https://images.unsplash.com/photo-1542744094-24638eff58bb?auto=format&fit=crop&w=1200&q=60'']),
       (''thumbnail'', VStr ''https://images.unsplash.com/photo-1556742393-d75f468bfcb0?auto=format&fit=crop&w=800&q=60''),
       (''featured'', VBool True)],
      [(''title'', VStr ''Metal Card X''),
       (''description'', VStr ''Brushed metal card with concierge and lounge access.''),
       (''price'', VFloat 299),
       (''category'', VStr ''Cards''),
       (''stock'', VInt 20),
       (''rating'', VFloat 4.9),
       (''images'', VList
          [VStr ''https://images.unsplash.com/photo-1517245386807-bb43f82c33c4?auto=format&fit=crop&w=1200&q=60'']),
       (''thumbnail'', VStr ''https://images.unsplash.com/photo-1517245386807-bb43f82c33c4?auto=format&fit=crop&w=800&q=60''),
       (''featured'', VBool True)],
      [(''title'', VStr ''Card Sleeve''),
       (''description'', VStr ''Minimalist leather sleeve with RFID protection.''),
       (''price'', VFloat 29),
       (''category'', VStr ''Accessories''),
       (''stock'', VInt 200),
       (''rating'', VFloat 4.6),
       (''images'', VList
          [VStr ''https://images.unsplash.com/photo-1555529771-35a38c3c12c1?auto=format&fit=crop&w=1200&q=60'']),
       (''thumbnail'', VStr ''https://images.unsplash.com/photo-1555529771-35a38c3c12c1?auto=format&fit=crop&w=800&q=60''),
       (''featured'', VBool False)]]"

definition sample_posts :: "doc list" where
  "sample_posts =
     [[(''title'', VStr ''Designing the Future of Payments''),
       (''excerpt'', VStr ''A look into glassmorphism and 3D in fintech UI.''),
       (''content'', VStr ''Modern fintech combines security and delightful experiences...''),
       (''thumbnail'', VStr ''https://images.unsplash.com/photo-1553729459-efe14ef6055d?auto=format&fit=crop&w=1000&q=60''),
       (''author'', VStr ''Admin''),
       (''tags'', VList [VStr ''design'', VStr ''fintech''])],
      [(''title'', VStr ''How We Built Metal Card X''),
       (''excerpt'', VStr ''Materials, durability, and sustainable sourcing.''),
       (''content'', VStr ''The Metal Card X project started with a mission...''),
       (''thumbnail'', VStr ''https://images.unsplash.com/photo-1498050108023-c5249f4df085?auto=format&fit=crop&w=1000&q=60''),
       (''author'', VStr ''Admin''),
       (''tags'', VList [VStr ''hardware'', VStr ''product''])]]"

text \<open>
  \<^verbatim>\<open>seed_database\<close> runs once when the module is loaded: nothing without a store, otherwise
  each of the two collections is filled when it is empty. An exception of the store ends it.
\<close>

definition seed_collection :: "database \<Rightarrow> string \<Rightarrow> doc list \<Rightarrow> error + database" where
  "seed_collection db name samples =
     (case count_documents db name [] of
        Inl e \<Rightarrow> Inl e
      | Inr n \<Rightarrow>
          if n = 0
          then (case insert_many db name samples of
                  (Inl e, db') \<Rightarrow> Inl e
                | (Inr ids, db') \<Rightarrow> Inr db')
          else Inr db)"

definition seed_database :: "database option \<Rightarrow> error + database option" where
  "seed_database db =
     (case db of
        None \<Rightarrow> Inr None
      | Some d \<Rightarrow>
          (case seed_collection d ''product'' sample_products of
             Inl e \<Rightarrow> Inl e
           | Inr d1 \<Rightarrow>
               (case seed_collection d1 ''blogpost'' sample_posts of
                  Inl e \<Rightarrow> Inl e
                | Inr d2 \<Rightarrow> Inr (Some d2))))"

section \<open>Products\<close>

text \<open>
  A query parameter declared \<^verbatim>\<open>Optional[T] = Query(None, ...)\<close> or \<^verbatim>\<open>T = Query(default, ...)\<close>
  is a \<open>T option\<close>, \<open>None\<close> when the request does not carry it. Its bounds are checked on a
  value that is present; the default is not checked.
\<close>

definition query_ok :: "('a \<Rightarrow> bool) \<Rightarrow> 'a option \<Rightarrow> bool" where
  "query_ok P p = (case p of None \<Rightarrow> True | Some v \<Rightarrow> P v)"

definition query_default :: "'a \<Rightarrow> 'a option \<Rightarrow> 'a" where
  "query_default d p = (case p of None \<Rightarrow> d | Some v \<Rightarrow> v)"

text \<open>
  The filter that \<^verbatim>\<open>list_products\<close> builds, statement by statement. \<^verbatim>\<open>if q\<close> and
  \<^verbatim>\<open>if category\<close> hold for a string that is present and not empty, \<^verbatim>\<open>if price_range\<close> for
  a dictionary that is not empty.
\<close>

definition price_range :: "real option \<Rightarrow> real option \<Rightarrow> doc" where
  "price_range min_price max_price =
     (let r = [];
          r = (case min_price of None \<Rightarrow> r | Some v \<Rightarrow> AList.update ''$gte'' (VFloat v) r);
          r = (case max_price of None \<Rightarrow> r | Some v \<Rightarrow> AList.update ''$lte'' (VFloat v) r)
      in r)"

definition product_filter ::
  "string option \<Rightarrow> string option \<Rightarrow> real option \<Rightarrow> real option \<Rightarrow> real option \<Rightarrow> bool option \<Rightarrow> doc"
where
  "product_filter q category min_price max_price min_rating featured =
     (let filt = [];
          filt = (case q of
                    None \<Rightarrow> filt
                  | Some s \<Rightarrow>
                      if s \<noteq> []
                      then AList.update ''title''
                             (VDict [(''$regex'', VStr s), (''$options'', VStr ''i'')]) filt
                      else filt);
          filt = (case category of
                    None \<Rightarrow> filt
                  | Some c \<Rightarrow> if c \<noteq> [] then AList.update ''category'' (VStr c) filt else filt);
          filt = (if price_range min_price max_price \<noteq> []
                  then AList.update ''price'' (VDict (price_range min_price max_price)) filt
                  else filt);
          filt = (case min_rating of
                    None \<Rightarrow> filt
                  | Some v \<Rightarrow> AList.update ''rating'' (VDict [(''$gte'', VFloat v)]) filt);
          filt = (case featured of
                    None \<Rightarrow> filt
                  | Some b \<Rightarrow> AList.update ''featured'' (VBool b) filt)
      in filt)"

text \<open>
  \<^verbatim>\<open>list_products\<close>, with the bounds its signature declares: \<^verbatim>\<open>min_price\<close> and \<^verbatim>\<open>max_price\<close>
  at least 0, \<^verbatim>\<open>min_rating\<close> from 0 to 5, \<^verbatim>\<open>limit\<close> from 1 to 100 (default 50), \<^verbatim>\<open>skip\<close> at
  least 0 (default 0).
\<close>

definition products_query_ok ::
  "real option \<Rightarrow> real option \<Rightarrow> real option \<Rightarrow> int option \<Rightarrow> int option \<Rightarrow> bool"
where
  "products_query_ok min_price max_price min_rating limit skip =
     (query_ok (\<lambda>v. 0 \<le> v) min_price \<and> query_ok (\<lambda>v. 0 \<le> v) max_price \<and>
      query_ok (\<lambda>v. 0 \<le> v \<and> v \<le> 5) min_rating \<and>
      query_ok (\<lambda>v. 1 \<le> v \<and> v \<le> 100) limit \<and> query_ok (\<lambda>v. 0 \<le> v) skip)"

definition list_products ::
  "(pyval \<Rightarrow> string) \<Rightarrow> database option \<Rightarrow> string option \<Rightarrow> string option \<Rightarrow>
   real option \<Rightarrow> real option \<Rightarrow> real option \<Rightarrow> bool option \<Rightarrow> int option \<Rightarrow> int option \<Rightarrow>
   error + doc list"
where
  "list_products str db q category min_price max_price min_rating featured limit skip =
     (if \<not> products_query_ok min_price max_price min_rating limit skip
      then Inl RequestValidationError
      else
        (case db of
           None \<Rightarrow> Inr []
         | Some d \<Rightarrow>
             (case coll_find d ''product''
                     (product_filter q category min_price max_price min_rating featured) of
                Inl e \<Rightarrow> Inl e
              | Inr cursor \<Rightarrow>
                  Inr (map (serialize_doc str)
                         (cursor_limit (query_default 50 limit)
                            (cursor_skip (query_default 0 skip) cursor))))))"

text \<open>
  \<^verbatim>\<open>
  def get_product(product_id: str):
      if db is None:
          raise HTTPException(status_code=404, detail="Not found")
      try:
          doc = db["product"].find_one({"_id": ObjectId(product_id)})
      except Exception:
          raise HTTPException(status_code=400, detail="Invalid id")
      if not doc:
          raise HTTPException(status_code=404, detail="Not found")
      return serialize_doc(doc)
  \<close>
  The \<^verbatim>\<open>try\<close> block covers the parsing of the identifier and the query. \<^verbatim>\<open>not doc\<close> holds
  when there is no document and when the document is empty.
\<close>

definition get_product :: "(pyval \<Rightarrow> string) \<Rightarrow> database option \<Rightarrow> string \<Rightarrow> error + doc" where
  "get_product str db product_id =
     (case db of
        None \<Rightarrow> Inl (HTTPException 404 ''Not found'')
      | Some d \<Rightarrow>
          (case (case ObjectId product_id of
                   Inl e \<Rightarrow> Inl e
                 | Inr oid \<Rightarrow> find_one d ''product'' [(''_id'', VObjectId oid)]) of
             Inl e \<Rightarrow> Inl (HTTPException 400 ''Invalid id'')
           | Inr None \<Rightarrow> Inl (HTTPException 404 ''Not found'')
           | Inr (Some x) \<Rightarrow>
               if x = [] then Inl (HTTPException 404 ''Not found'')
               else Inr (serialize_doc str x)))"

section \<open>Blog\<close>

text \<open>\<^verbatim>\<open>list_blogs\<close>: \<^verbatim>\<open>limit\<close> from 1 to 100 (default 20), \<^verbatim>\<open>skip\<close> at least 0 (default 0).\<close>

definition blogs_query_ok :: "int option \<Rightarrow> int option \<Rightarrow> bool" where
  "blogs_query_ok limit skip =
     (query_ok (\<lambda>v. 1 \<le> v \<and> v \<le> 100) limit \<and> query_ok (\<lambda>v. 0 \<le> v) skip)"

definition list_blogs ::
  "(pyval \<Rightarrow> string) \<Rightarrow> database option \<Rightarrow> int option \<Rightarrow> int option \<Rightarrow> error + doc list"
where
  "list_blogs str db limit skip =
     (if \<not> blogs_query_ok limit skip
      then Inl RequestValidationError
      else
        (case db of
           None \<Rightarrow> Inr []
         | Some d \<Rightarrow>
             (case coll_find d ''blogpost'' [] of
                Inl e \<Rightarrow> Inl e
              | Inr cursor \<Rightarrow>
                  Inr (map (serialize_doc str)
                         (cursor_limit (query_default 20 limit)
                            (cursor_skip (query_default 0 skip) (sort_id_desc cursor)))))))"

definition get_blog :: "(pyval \<Rightarrow> string) \<Rightarrow> database option \<Rightarrow> string \<Rightarrow> error + doc" where
  "get_blog str db post_id =
     (case db of
        None \<Rightarrow> Inl (HTTPException 404 ''Not found'')
      | Some d \<Rightarrow>
          (case (case ObjectId post_id of
                   Inl e \<Rightarrow> Inl e
                 | Inr oid \<Rightarrow> find_one d ''blogpost'' [(''_id'', VObjectId oid)]) of
             Inl e \<Rightarrow> Inl (HTTPException 400 ''Invalid id'')
           | Inr None \<Rightarrow> Inl (HTTPException 404 ''Not found'')
           | Inr (Some x) \<Rightarrow>
               if x = [] then Inl (HTTPException 404 ''Not found'')
               else Inr (serialize_doc str x)))"

section \<open>Request bodies and schemas\<close>

text \<open>
  A field of a JSON request body is missing, present with a value the declared type rejects,
  or present with a value of the declared type. A field declared without a default is
  required; a field with a default takes it when it is missing.
\<close>

datatype 'a field = Missing | Invalid | Valid 'a

fun required :: "'a field \<Rightarrow> 'a option" where
  "required (Valid x) = Some x"
| "required f = None"

fun with_default :: "'a \<Rightarrow> 'a field \<Rightarrow> 'a option" where
  "with_default d Missing = Some d"
| "with_default d (Valid x) = Some x"
| "with_default d Invalid = None"

text \<open>\<^verbatim>\<open>schemas.py\<close>: \<^verbatim>\<open>OrderItem\<close>, \<^verbatim>\<open>ShippingInfo\<close>, \<^verbatim>\<open>PaymentInfo\<close> and \<^verbatim>\<open>Order\<close>.\<close>

record OrderItem =
  oi_product_id :: string
  oi_title :: string
  oi_price :: real
  oi_quantity :: int
  oi_thumbnail :: "string option"

record OrderItem_body =
  oib_product_id :: "string field"
  oib_title :: "string field"
  oib_price :: "real field"
  oib_quantity :: "int field"
  oib_thumbnail :: "string option field"

definition validate_OrderItem :: "OrderItem_body \<Rightarrow> OrderItem option" where
  "validate_OrderItem b =
     (case (required (oib_product_id b), required (oib_title b), required (oib_price b),
            required (oib_quantity b), with_default None (oib_thumbnail b)) of
        (Some p, Some t, Some pr, Some q, Some th) \<Rightarrow>
          Some \<lparr>oi_product_id = p, oi_title = t, oi_price = pr, oi_quantity = q, oi_thumbnail = th\<rparr>
      | _ \<Rightarrow> None)"

record ShippingInfo =
  si_full_name :: string
  si_email :: string
  si_phone :: string
  si_address :: string
  si_city :: string
  si_postal_code :: string
  si_country :: string
  si_shipping_method :: string

record ShippingInfo_body =
  sib_full_name :: "string field"
  sib_email :: "string field"
  sib_phone :: "string field"
  sib_address :: "string field"
  sib_city :: "string field"
  sib_postal_code :: "string field"
  sib_country :: "string field"
  sib_shipping_method :: "string field"

definition validate_ShippingInfo :: "ShippingInfo_body \<Rightarrow> ShippingInfo option" where
  "validate_ShippingInfo b =
     (case (required (sib_full_name b), required (sib_email b), required (sib_phone b),
            required (sib_address b), required (sib_city b), required (sib_postal_code b),
            required (sib_country b), with_default ''standard'' (sib_shipping_method b)) of
        (Some n, Some e, Some p, Some a, Some c, Some pc, Some co, Some m) \<Rightarrow>
          Some \<lparr>si_full_name = n, si_email = e, si_phone = p, si_address = a, si_city = c,
                si_postal_code = pc, si_country = co, si_shipping_method = m\<rparr>
      | _ \<Rightarrow> None)"

record PaymentInfo =
  pi_method :: string
  pi_status :: string

record PaymentInfo_body =
  pib_method :: "string field"
  pib_status :: "string field"

definition validate_PaymentInfo :: "PaymentInfo_body \<Rightarrow> PaymentInfo option" where
  "validate_PaymentInfo b =
     (case (with_default ''cod'' (pib_method b), with_default ''pending'' (pib_status b)) of
        (Some m, Some s) \<Rightarrow> Some \<lparr>pi_method = m, pi_status = s\<rparr>
      | _ \<Rightarrow> None)"

record Order =
  o_items :: "OrderItem list"
  o_subtotal :: real
  o_shipping_cost :: real
  o_total :: real
  o_shipping :: ShippingInfo
  o_payment :: PaymentInfo
  o_status :: string

record Order_body =
  ob_items :: "OrderItem_body list field"
  ob_subtotal :: "real field"
  ob_shipping_cost :: "real field"
  ob_total :: "real field"
  ob_shipping :: "ShippingInfo_body field"
  ob_payment :: "PaymentInfo_body field"
  ob_status :: "string field"

text \<open>A nested model is valid when it is present and its own validation succeeds.\<close>

definition nested :: "('b \<Rightarrow> 'a option) \<Rightarrow> 'b field \<Rightarrow> 'a field" where
  "nested validate f =
     (case f of
        Missing \<Rightarrow> Missing
      | Invalid \<Rightarrow> Invalid
      | Valid b \<Rightarrow> (case validate b of None \<Rightarrow> Invalid | Some x \<Rightarrow> Valid x))"

fun validate_all :: "('b \<Rightarrow> 'a option) \<Rightarrow> 'b list \<Rightarrow> 'a list option" where
  "validate_all validate [] = Some []"
| "validate_all validate (b # bs) =
     (case (validate b, validate_all validate bs) of
        (Some x, Some xs) \<Rightarrow> Some (x # xs)
      | _ \<Rightarrow> None)"

definition validate_Order :: "Order_body \<Rightarrow> Order option" where
  "validate_Order b =
     (case (required (nested (validate_all validate_OrderItem) (ob_items b)),
            required (ob_subtotal b), required (ob_shipping_cost b), required (ob_total b),
            required (nested validate_ShippingInfo (ob_shipping b)),
            required (nested validate_PaymentInfo (ob_payment b)),
            with_default ''created'' (ob_status b)) of
        (Some i, Some s, Some sc, Some t, Some sh, Some p, Some st) \<Rightarrow>
          Some \<lparr>o_items = i, o_subtotal = s, o_shipping_cost = sc, o_total = t,
                o_shipping = sh, o_payment = p, o_status = st\<rparr>
      | _ \<Rightarrow> None)"

text \<open>\<^verbatim>\<open>model_dump()\<close>: the model as a dictionary, fields in declaration order.\<close>

definition opt_str :: "string option \<Rightarrow> pyval" where
  "opt_str s = (case s of None \<Rightarrow> VNone | Some t \<Rightarrow> VStr t)"

definition OrderItem_dump :: "OrderItem \<Rightarrow> doc" where
  "OrderItem_dump i =
     [(''product_id'', VStr (oi_product_id i)), (''title'', VStr (oi_title i)),
      (''price'', VFloat (oi_price i)), (''quantity'', VInt (oi_quantity i)),
      (''thumbnail'', opt_str (oi_thumbnail i))]"

definition ShippingInfo_dump :: "ShippingInfo \<Rightarrow> doc" where
  "ShippingInfo_dump s =
     [(''full_name'', VStr (si_full_name s)), (''email'', VStr (si_email s)),
      (''phone'', VStr (si_phone s)), (''address'', VStr (si_address s)),
      (''city'', VStr (si_city s)), (''postal_code'', VStr (si_postal_code s)),
      (''country'', VStr (si_country s)), (''shipping_method'', VStr (si_shipping_method s))]"

definition PaymentInfo_dump :: "PaymentInfo \<Rightarrow> doc" where
  "PaymentInfo_dump p = [(''method'', VStr (pi_method p)), (''status'', VStr (pi_status p))]"

definition Order_dump :: "Order \<Rightarrow> doc" where
  "Order_dump ord =
     [(''items'', VList (map (\<lambda>i. VDict (OrderItem_dump i)) (o_items ord))),
      (''subtotal'', VFloat (o_subtotal ord)),
      (''shipping_cost'', VFloat (o_shipping_cost ord)),
      (''total'', VFloat (o_total ord)),
      (''shipping'', VDict (ShippingInfo_dump (o_shipping ord))),
      (''payment'', VDict (PaymentInfo_dump (o_payment ord))),
      (''status'', VStr (o_status ord))]"

section \<open>Orders\<close>

text \<open>
  \<^verbatim>\<open>
  def create_order(order: OrderIn):
      if db is None:
          raise HTTPException(status_code=500, detail="Database not available")
      order_dict = order.model_dump()
      order_dict["payment"] = order_dict.get("payment", {"method": "cod", "status": "pending"})
      inserted_id = db["order"].insert_one(order_dict).inserted_id
      payment_url = f"https://example-pay.test/checkout/{inserted_id}"
      return {"order_id": str(inserted_id), "status": "created", "payment_url": payment_url}
  \<close>
  \<^verbatim>\<open>OrderIn\<close> is \<^verbatim>\<open>Order\<close>. The request body is validated against it before the body of the
  function runs. The result is the response and the store after the request.
\<close>

definition create_order ::
  "(pyval \<Rightarrow> string) \<Rightarrow> database option \<Rightarrow> Order_body \<Rightarrow> (error + doc) \<times> database option"
where
  "create_order str db body =
     (case validate_Order body of
        None \<Rightarrow> (Inl RequestValidationError, db)
      | Some ord \<Rightarrow>
          (case db of
             None \<Rightarrow> (Inl (HTTPException 500 ''Database not available''), db)
           | Some d \<Rightarrow>
               (let order_dict = Order_dump ord;
                    order_dict =
                      AList.update ''payment''
                        (case map_of order_dict ''payment'' of
                           Some p \<Rightarrow> p
                         | None \<Rightarrow> VDict [(''method'', VStr ''cod''), (''status'', VStr ''pending'')])
                        order_dict
                in case insert_one d ''order'' order_dict of
                     (Inl e, d') \<Rightarrow> (Inl e, Some d')
                   | (Inr inserted_id, d') \<Rightarrow>
                       (Inr [(''order_id'', VStr (str inserted_id)),
                             (''status'', VStr ''created''),
                             (''payment_url'',
                                VStr (''https://example-pay.test/checkout/'' @ str inserted_id))],
                        Some d'))))"

section \<open>Contact and authentication\<close>

text \<open>
  Modelled from the spec: \<^verbatim>\<open>create_document\<close> of \<^verbatim>\<open>database.py\<close>, which is not among the
  sources. The spec gives the store the operation
  \<^verbatim>\<open>insert(collection, document) -> identifier\<close>, and says of registration that it ``inserts
  and returns the new identifier''.
\<close>

definition create_document :: "database \<Rightarrow> string \<Rightarrow> doc \<Rightarrow> (error + pyval) \<times> database" where
  "create_document db name data = insert_one db name data"

record ContactIn =
  c_name :: string
  c_email :: string
  c_message :: string

definition ContactIn_dump :: "ContactIn \<Rightarrow> doc" where
  "ContactIn_dump p =
     [(''name'', VStr (c_name p)), (''email'', VStr (c_email p)), (''message'', VStr (c_message p))]"

record RegisterIn =
  r_name :: string
  r_email :: string
  r_password :: string

definition RegisterIn_dump :: "RegisterIn \<Rightarrow> doc" where
  "RegisterIn_dump u =
     [(''name'', VStr (r_name u)), (''email'', VStr (r_email u)), (''password'', VStr (r_password u))]"

record LoginIn =
  l_email :: string
  l_password :: string

text \<open>\<^verbatim>\<open>if existing\<close> and \<^verbatim>\<open>if not found\<close>: a document that is there and not empty.\<close>

definition doc_truthy :: "doc option \<Rightarrow> bool" where
  "doc_truthy d = (case d of None \<Rightarrow> False | Some x \<Rightarrow> x \<noteq> [])"

text \<open>
  \<^verbatim>\<open>
  def submit_contact(payload: ContactIn):
      if db is None:
          return {"status": "received"}
      _id = create_document("contact", payload.model_dump())
      return {"status": "ok", "id": _id}
  \<close>
\<close>

definition submit_contact :: "database option \<Rightarrow> ContactIn \<Rightarrow> (error + doc) \<times> database option" where
  "submit_contact db payload =
     (case db of
        None \<Rightarrow> (Inr [(''status'', VStr ''received'')], db)
      | Some d \<Rightarrow>
          (case create_document d ''contact'' (ContactIn_dump payload) of
             (Inl e, d') \<Rightarrow> (Inl e, Some d')
           | (Inr ident, d') \<Rightarrow> (Inr [(''status'', VStr ''ok''), (''id'', ident)], Some d')))"

text \<open>
  \<^verbatim>\<open>
  def register(user: RegisterIn):
      if db is None:
          return {"status": "ok"}
      existing = db["user"].find_one({"email": user.email})
      if existing:
          raise HTTPException(status_code=400, detail="Email already registered")
      _id = create_document("user", user.model_dump())
      return {"status": "ok", "user_id": _id}
  \<close>
\<close>

definition register :: "database option \<Rightarrow> RegisterIn \<Rightarrow> (error + doc) \<times> database option" where
  "register db user =
     (case db of
        None \<Rightarrow> (Inr [(''status'', VStr ''ok'')], db)
      | Some d \<Rightarrow>
          (case find_one d ''user'' [(''email'', VStr (r_email user))] of
             Inl e \<Rightarrow> (Inl e, db)
           | Inr existing \<Rightarrow>
               if doc_truthy existing
               then (Inl (HTTPException 400 ''Email already registered''), db)
               else (case create_document d ''user'' (RegisterIn_dump user) of
                       (Inl e, d') \<Rightarrow> (Inl e, Some d')
                     | (Inr ident, d') \<Rightarrow>
                         (Inr [(''status'', VStr ''ok''), (''user_id'', ident)], Some d'))))"

text \<open>
  \<^verbatim>\<open>
  def login(payload: LoginIn):
      if db is None:
          return {"status": "ok", "token": "demo-token"}
      found = db["user"].find_one({"email": payload.email, "password": payload.password})
      if not found:
          raise HTTPException(status_code=401, detail="Invalid credentials")
      return {"status": "ok", "token": "demo-token", "user": serialize_doc(found)}
  \<close>
\<close>

definition login :: "(pyval \<Rightarrow> string) \<Rightarrow> database option \<Rightarrow> LoginIn \<Rightarrow> error + doc" where
  "login str db payload =
     (case db of
        None \<Rightarrow> Inr [(''status'', VStr ''ok''), (''token'', VStr ''demo-token'')]
      | Some d \<Rightarrow>
          (case find_one d ''user''
                  [(''email'', VStr (l_email payload)), (''password'', VStr (l_password payload))] of
             Inl e \<Rightarrow> Inl e
           | Inr found \<Rightarrow>
               (case found of
                  None \<Rightarrow> Inl (HTTPException 401 ''Invalid credentials'')
                | Some x \<Rightarrow>
                    if x = [] then Inl (HTTPException 401 ''Invalid credentials'')
                    else Inr [(''status'', VStr ''ok''), (''token'', VStr ''demo-token''),
                              (''user'', VDict (serialize_doc str x))])))"

section \<open>Values for evaluation\<close>

text \<open>
  An instance of \<^verbatim>\<open>str\<close> for the examples: on an \<^verbatim>\<open>ObjectId\<close>, its 24 hexadecimal digits;
  on a string, the string. The identifiers of the examples are \<^verbatim>\<open>ObjectId\<close>s.
\<close>

definition hex_char :: "nat \<Rightarrow> char" where
  "hex_char d = (if d < 10 then char_of (48 + d) else char_of (87 + d))"

fun to_hex :: "nat \<Rightarrow> nat \<Rightarrow> string" where
  "to_hex 0 n = []"
| "to_hex (Suc k) n = to_hex k (n div 16) @ [hex_char (n mod 16)]"

fun py_str :: "pyval \<Rightarrow> string" where
  "py_str (VObjectId n) = to_hex 24 n"
| "py_str (VStr s) = s"
| "py_str v = []"

text \<open>A store that is reachable and holds nothing.\<close>

definition empty_store :: database where
  "empty_store = \<lparr>colls = (\<lambda>name. []), next_oid = 0\<rparr>"

text \<open>A small store: two products and one user.\<close>

definition small_store :: database where
  "small_store =
     \<lparr>colls = (\<lambda>name.
         if name = ''product''
         then [[(''_id'', VObjectId 1), (''title'', VStr ''Metal Card X''), (''price'', VFloat 299)],
               [(''_id'', VObjectId 2), (''title'', VStr ''Card Sleeve''), (''price'', VFloat 29)]]
         else if name = ''user''
         then [[(''_id'', VObjectId 3), (''name'', VStr ''A''), (''email'', VStr ''a@x.com''),
                (''password'', VStr ''p'')]]
         else []),
      next_oid = 4\<rparr>"

text \<open>
  An order body that carries every field but \<^verbatim>\<open>payment\<close>, and the same body with an empty
  \<^verbatim>\<open>payment\<close> object.
\<close>

definition order_without_payment :: Order_body where
  "order_without_payment =
     \<lparr>ob_items = Valid
        [\<lparr>oib_product_id = Valid ''000000000000000000000001'', oib_title = Valid ''Metal Card X'',
          oib_price = Valid 299, oib_quantity = Valid 1, oib_thumbnail = Missing\<rparr>],
      ob_subtotal = Valid 299,
      ob_shipping_cost = Valid 10,
      ob_total = Valid 309,
      ob_shipping = Valid
        \<lparr>sib_full_name = Valid ''A B'', sib_email = Valid ''a@x.com'', sib_phone = Valid ''1'',
         sib_address = Valid ''Street 1'', sib_city = Valid ''City'', sib_postal_code = Valid ''1000'',
         sib_country = Valid ''NL'', sib_shipping_method = Missing\<rparr>,
      ob_payment = Missing,
      ob_status = Missing\<rparr>"

definition order_with_empty_payment :: Order_body where
  "order_with_empty_payment =
     order_without_payment\<lparr>ob_payment := Valid \<lparr>pib_method = Missing, pib_status = Missing\<rparr>\<rparr>"

text \<open>The store after \<^verbatim>\<open>seed_database\<close> has run on the empty store.\<close>

definition seeded_store :: database where
  "seeded_store =
     (case seed_database (Some empty_store) of Inr (Some d) \<Rightarrow> d | _ \<Rightarrow> empty_store)"

section \<open>Substring search\<close>




section \<open>Serialization: properties\<close>

lemma get_update: "get (AList.update k v d) k' = (if k' = k then v else get d k')"
  by (simp add: get_def update_conv')

lemma get_delete: "get (AList.delete k d) k' = (if k' = k then VNone else get d k')"
  by (simp add: get_def delete_conv')

lemma truthy_get_nonempty: "truthy (get d k) \<Longrightarrow> d \<noteq> []"
  by (auto simp: get_def)

lemma serialize_doc_nonempty: "d \<noteq> [] \<Longrightarrow> serialize_doc str d \<noteq> []"
  by (simp add: serialize_doc_def)

lemma serialize_doc_again:
  "serialize_doc str (serialize_doc str d) =
     (if d = [] then [] else AList.update ''id'' VNone (serialize_doc str d))"
  by (simp add: serialize_doc_def get_update get_delete)

lemma update_id_differs: "AList.update ''id'' VNone al \<noteq> AList.update ''id'' (VStr s) al"
proof
  assume "AList.update ''id'' VNone al = AList.update ''id'' (VStr s) al"
  then have "map_of (AList.update ''id'' VNone al) ''id''
               = map_of (AList.update ''id'' (VStr s) al) ''id''"
    by simp
  then show False by (simp add: update_conv')
qed

text \<open>
  C9. The claim: serialization is idempotent, applying it twice equals applying it once for
  every document. It is not: the second application finds no \<^verbatim>\<open>_id\<close> any more and writes
  \<^verbatim>\<open>None\<close> over the identifier string that the first one stored under \<^verbatim>\<open>id\<close>.
\<close>

theorem serialize_doc_twice_counterexample:
  "serialize_doc py_str [(''_id'', VObjectId 1), (''title'', VStr ''Metal Card X'')]
     = [(''title'', VStr ''Metal Card X''), (''id'', VStr ''000000000000000000000001'')] \<and>
   serialize_doc py_str
     (serialize_doc py_str [(''_id'', VObjectId 1), (''title'', VStr ''Metal Card X'')])
     = [(''title'', VStr ''Metal Card X''), (''id'', VNone)] \<and>
   serialize_doc py_str
     (serialize_doc py_str [(''_id'', VObjectId 1), (''title'', VStr ''Metal Card X'')])
     \<noteq> serialize_doc py_str [(''_id'', VObjectId 1), (''title'', VStr ''Metal Card X'')]"
  by code_simp

text \<open>
  C9, as the code has it. On a document whose \<^verbatim>\<open>_id\<close> is absent or falsy, a second
  application changes nothing; such a document, when it is not empty, keeps every field
  but \<^verbatim>\<open>id\<close>, and \<^verbatim>\<open>id\<close> becomes \<^verbatim>\<open>None\<close>; the empty document stays empty. On a document with
  a truthy \<^verbatim>\<open>_id\<close> the second application replaces the identifier string under \<^verbatim>\<open>id\<close> by
  \<^verbatim>\<open>None\<close>, so twice differs from once. From the second application on nothing changes.
\<close>

theorem serialize_doc_twice:
  "(\<not> truthy (get d ''_id'') \<longrightarrow>
      serialize_doc str (serialize_doc str d) = serialize_doc str d) \<and>
   (truthy (get d ''_id'') \<longrightarrow>
      serialize_doc str d
        = AList.update ''id'' (VStr (str (get d ''_id''))) (AList.delete ''_id'' d) \<and>
      serialize_doc str (serialize_doc str d)
        = AList.update ''id'' VNone (AList.delete ''_id'' d) \<and>
      serialize_doc str (serialize_doc str d) \<noteq> serialize_doc str d) \<and>
   (d \<noteq> [] \<and> \<not> truthy (get d ''_id'') \<longrightarrow>
      serialize_doc str d = AList.update ''id'' VNone d \<and>
      (\<forall>k. k \<noteq> ''id'' \<longrightarrow> map_of (serialize_doc str d) k = map_of d k) \<and>
      map_of (serialize_doc str d) ''id'' = Some VNone) \<and>
   serialize_doc str [] = [] \<and>
   serialize_doc str (serialize_doc str (serialize_doc str d))
     = serialize_doc str (serialize_doc str d)"
proof -
  have a: "\<not> truthy (get d ''_id'') \<longrightarrow>
      serialize_doc str (serialize_doc str d) = serialize_doc str d"
    by (simp add: serialize_doc_def get_update)
  have b: "truthy (get d ''_id'') \<longrightarrow>
      serialize_doc str d
        = AList.update ''id'' (VStr (str (get d ''_id''))) (AList.delete ''_id'' d) \<and>
      serialize_doc str (serialize_doc str d)
        = AList.update ''id'' VNone (AList.delete ''_id'' d) \<and>
      serialize_doc str (serialize_doc str d) \<noteq> serialize_doc str d"
  proof
    assume t: "truthy (get d ''_id'')"
    then have ne: "d \<noteq> []"
      by (rule truthy_get_nonempty)
    have once: "serialize_doc str d
        = AList.update ''id'' (VStr (str (get d ''_id''))) (AList.delete ''_id'' d)"
      using t ne by (simp add: serialize_doc_def)
    have "serialize_doc str (serialize_doc str d)
        = AList.update ''id'' VNone (serialize_doc str d)"
      using ne by (simp add: serialize_doc_again)
    then have twice: "serialize_doc str (serialize_doc str d)
        = AList.update ''id'' VNone (AList.delete ''_id'' d)"
      by (simp add: once)
    show "serialize_doc str d
        = AList.update ''id'' (VStr (str (get d ''_id''))) (AList.delete ''_id'' d) \<and>
      serialize_doc str (serialize_doc str d)
        = AList.update ''id'' VNone (AList.delete ''_id'' d) \<and>
      serialize_doc str (serialize_doc str d) \<noteq> serialize_doc str d"
      using once twice update_id_differs by simp
  qed
  have c: "d \<noteq> [] \<and> \<not> truthy (get d ''_id'') \<longrightarrow>
      serialize_doc str d = AList.update ''id'' VNone d \<and>
      (\<forall>k. k \<noteq> ''id'' \<longrightarrow> map_of (serialize_doc str d) k = map_of d k) \<and>
      map_of (serialize_doc str d) ''id'' = Some VNone"
    by (simp add: serialize_doc_def update_conv')
  have e: "serialize_doc str [] = []"
    by (simp add: serialize_doc_def)
  have f: "serialize_doc str (serialize_doc str (serialize_doc str d))
      = serialize_doc str (serialize_doc str d)"
  proof (cases "d = []")
    case True
    then show ?thesis by (simp add: serialize_doc_def)
  next
    case False
    then have ne: "serialize_doc str d \<noteq> []"
      by (rule serialize_doc_nonempty)
    have "serialize_doc str (serialize_doc str (serialize_doc str d))
            = AList.update ''id'' VNone (serialize_doc str (serialize_doc str d))"
      using ne serialize_doc_again [of str "serialize_doc str d"] by simp
    also have "\<dots> = AList.update ''id'' VNone (AList.update ''id'' VNone (serialize_doc str d))"
      using False serialize_doc_again [of str d] by simp
    also have "\<dots> = serialize_doc str (serialize_doc str d)"
      using False serialize_doc_again [of str d] by simp
    finally show ?thesis .
  qed
  from a b c e f show ?thesis by blast
qed

theorem serialize_doc_twice_witness:
  "\<not> truthy (get [(''title'', VStr ''Card Sleeve'')] ''_id'') \<and>
   [(''title'', VStr ''Card Sleeve'')] \<noteq> [] \<and>
   truthy (get [(''_id'', VObjectId 2)] ''_id'') \<and>
   serialize_doc py_str (serialize_doc py_str [(''title'', VStr ''Card Sleeve'')])
     = serialize_doc py_str [(''title'', VStr ''Card Sleeve'')] \<and>
   map_of (serialize_doc py_str [(''title'', VStr ''Card Sleeve'')]) ''id'' = Some VNone \<and>
   serialize_doc py_str (serialize_doc py_str [(''_id'', VObjectId 2)])
     \<noteq> serialize_doc py_str [(''_id'', VObjectId 2)]"
proof -
  have h1: "\<not> truthy (get [(''title'', VStr ''Card Sleeve'')] ''_id'')"
    by (simp add: get_def)
  have h2: "[(''title'', VStr ''Card Sleeve'')] \<noteq> ([] :: doc)"
    by simp
  have h3: "truthy (get [(''_id'', VObjectId 2)] ''_id'')"
    by (simp add: get_def)
  show ?thesis
    using h1 h2 h3 serialize_doc_twice [of "[(''title'', VStr ''Card Sleeve'')]" py_str]
      serialize_doc_twice [of "[(''_id'', VObjectId 2)]" py_str]
    by blast
qed

section \<open>Behaviour without a store\<close>

text \<open>
  C10. Without a store handle, \<^verbatim>\<open>login\<close> answers every email and password with the success
  response that carries the fixed token \<^verbatim>\<open>demo-token\<close>; no credential is looked at, and the
  answer is never the 401 of invalid credentials.
\<close>

theorem login_without_store:
  "login str None payload = Inr [(''status'', VStr ''ok''), (''token'', VStr ''demo-token'')] \<and>
   status_code (login str None payload) = 200 \<and>
   login str None payload \<noteq> Inl (HTTPException 401 ''Invalid credentials'')"
  by (simp add: login_def)

lemma valid_order_with_empty_payment: "validate_Order order_with_empty_payment \<noteq> None"
  by (simp add: validate_Order_def order_with_empty_payment_def order_without_payment_def
      nested_def validate_PaymentInfo_def validate_ShippingInfo_def validate_OrderItem_def)

text \<open>
  C2. The claim: without a store handle every write endpoint answers with 500. The contact
  and the registration endpoints answer with a success response instead.
\<close>

theorem write_without_store_counterexample:
  "submit_contact None \<lparr>c_name = ''A'', c_email = ''a@x.com'', c_message = ''hello''\<rparr>
     = (Inr [(''status'', VStr ''received'')], None) \<and>
   status_code (fst (submit_contact None \<lparr>c_name = ''A'', c_email = ''a@x.com'', c_message = ''hello''\<rparr>)) = 200 \<and>
   register None \<lparr>r_name = ''A'', r_email = ''a@x.com'', r_password = ''p''\<rparr>
     = (Inr [(''status'', VStr ''ok'')], None) \<and>
   status_code (fst (register None \<lparr>r_name = ''A'', r_email = ''a@x.com'', r_password = ''p''\<rparr>)) = 200"
  by (simp add: submit_contact_def register_def)

text \<open>
  C2, as the code has it. Without a store handle: \<^verbatim>\<open>create_order\<close> answers a valid body with
  500; \<^verbatim>\<open>submit_contact\<close> and \<^verbatim>\<open>register\<close> answer with the success responses
  \<^verbatim>\<open>{"status": "received"}\<close> and \<^verbatim>\<open>{"status": "ok"}\<close> and store nothing; the two list endpoints
  answer a valid query with the empty list; the two lookups answer with 404.
\<close>

theorem responses_without_store:
  "(validate_Order body \<noteq> None \<longrightarrow>
      create_order str None body = (Inl (HTTPException 500 ''Database not available''), None)) \<and>
   submit_contact None payload = (Inr [(''status'', VStr ''received'')], None) \<and>
   register None user = (Inr [(''status'', VStr ''ok'')], None) \<and>
   (products_query_ok min_price max_price min_rating limit skip \<longrightarrow>
      list_products str None q category min_price max_price min_rating featured limit skip = Inr []) \<and>
   (blogs_query_ok limit skip \<longrightarrow> list_blogs str None limit skip = Inr []) \<and>
   get_product str None ident = Inl (HTTPException 404 ''Not found'') \<and>
   get_blog str None ident = Inl (HTTPException 404 ''Not found'')"
  by (auto simp: create_order_def submit_contact_def register_def list_products_def
      list_blogs_def get_product_def get_blog_def)

theorem responses_without_store_witness:
  "validate_Order order_with_empty_payment \<noteq> None \<and>
   products_query_ok None None None None None \<and>
   blogs_query_ok None None \<and>
   status_code (fst (create_order py_str None order_with_empty_payment)) = 500 \<and>
   status_code (fst (submit_contact None \<lparr>c_name = ''A'', c_email = ''a@x.com'', c_message = ''hello''\<rparr>)) = 200 \<and>
   list_products py_str None None None None None None None None None = Inr [] \<and>
   list_blogs py_str None None None = Inr []"
proof -
  have h2: "products_query_ok None None None None None"
    by (simp add: products_query_ok_def query_ok_def)
  have h3: "blogs_query_ok None None"
    by (simp add: blogs_query_ok_def query_ok_def)
  show ?thesis
    using valid_order_with_empty_payment h2 h3
      responses_without_store [of order_with_empty_payment py_str
        "\<lparr>c_name = ''A'', c_email = ''a@x.com'', c_message = ''hello''\<rparr>"
        "\<lparr>r_name = ''A'', r_email = ''a@x.com'', r_password = ''p''\<rparr>"
        None None None None None None None None "[]"]
    by simp
qed

section \<open>Lookup by identifier\<close>

lemma first_of_filter:
  "(case filter P xs of [] \<Rightarrow> None | x # _ \<Rightarrow> Some x) = List.find P xs"
  by (induction xs) auto

lemma id_filter_supported: "filter_supported [(''_id'', VObjectId oid)]"
  by (simp add: filter_supported_def is_op_key_def)

lemma bson_eq_no_number: "num_of q = None \<Longrightarrow> bson_eq x q = (x = q)"
  by (simp add: bson_eq_def split: option.splits)

lemma matches_id:
  "matches [(''_id'', VObjectId oid)] x \<longleftrightarrow>
     get x ''_id'' = VObjectId oid \<or> (\<exists>xs. get x ''_id'' = VList xs \<and> VObjectId oid \<in> set xs)"
proof (cases "map_of x ''_id''")
  case None
  then show ?thesis by (simp add: matches_def eq_match_def get_def)
next
  case (Some v)
  then show ?thesis
    by (cases v) (auto simp: matches_def eq_match_def get_def bson_eq_no_number list_ex_iff)
qed

lemma matches_id_nonempty: "matches [(''_id'', VObjectId oid)] x \<Longrightarrow> x \<noteq> []"
  by (auto simp: matches_def eq_match_def)

lemma find_one_id:
  "find_one d name [(''_id'', VObjectId oid)]
     = Inr (List.find (matches [(''_id'', VObjectId oid)]) (colls d name))"
  by (simp add: find_one_def coll_find_def id_filter_supported first_of_filter)

lemma get_product_parsed:
  assumes "ObjectId ident = Inr oid"
  shows "get_product str (Some d) ident =
     (case List.find (matches [(''_id'', VObjectId oid)]) (colls d ''product'') of
        None \<Rightarrow> Inl (HTTPException 404 ''Not found'')
      | Some x \<Rightarrow> Inr (serialize_doc str x))"
proof (cases "List.find (matches [(''_id'', VObjectId oid)]) (colls d ''product'')")
  case None
  then show ?thesis using assms by (simp add: get_product_def find_one_id)
next
  case (Some x)
  then have "matches [(''_id'', VObjectId oid)] x"
    by (auto simp: find_Some_iff)
  then have "x \<noteq> []" by (rule matches_id_nonempty)
  then show ?thesis using assms Some by (simp add: get_product_def find_one_id)
qed

lemma get_blog_parsed:
  assumes "ObjectId ident = Inr oid"
  shows "get_blog str (Some d) ident =
     (case List.find (matches [(''_id'', VObjectId oid)]) (colls d ''blogpost'') of
        None \<Rightarrow> Inl (HTTPException 404 ''Not found'')
      | Some x \<Rightarrow> Inr (serialize_doc str x))"
proof (cases "List.find (matches [(''_id'', VObjectId oid)]) (colls d ''blogpost'')")
  case None
  then show ?thesis using assms by (simp add: get_blog_def find_one_id)
next
  case (Some x)
  then have "matches [(''_id'', VObjectId oid)] x"
    by (auto simp: find_Some_iff)
  then have "x \<noteq> []" by (rule matches_id_nonempty)
  then show ?thesis using assms Some by (simp add: get_blog_def find_one_id)
qed

text \<open>
  C6. The claim: an identifier that does not parse is answered with 400, never with 404.
  Without a store handle the lookup answers 404 before it looks at the identifier.
\<close>

theorem lookup_without_store_counterexample:
  "ObjectId ''not-an-id'' = Inl InvalidId \<and>
   get_product py_str None ''not-an-id'' = Inl (HTTPException 404 ''Not found'') \<and>
   get_blog py_str None ''not-an-id'' = Inl (HTTPException 404 ''Not found'')"
  by (simp add: ObjectId_def get_product_def get_blog_def)

text \<open>
  C6, as the code has it. With a store handle: an identifier that \<^verbatim>\<open>ObjectId\<close> rejects is
  answered with 400; one that parses is answered with 404 when no document of the collection
  matches it, and otherwise with the serialization of the first document that matches. A
  document matches when its \<^verbatim>\<open>_id\<close> is the parsed identifier (or an array that holds it).
  Without a store handle every lookup is answered with 404.
\<close>

theorem lookup_by_identifier:
  "(ObjectId ident = Inl e \<longrightarrow>
      get_product str (Some d) ident = Inl (HTTPException 400 ''Invalid id'') \<and>
      get_blog str (Some d) ident = Inl (HTTPException 400 ''Invalid id'')) \<and>
   (ObjectId ident = Inr oid \<longrightarrow>
      get_product str (Some d) ident =
        (case List.find (matches [(''_id'', VObjectId oid)]) (colls d ''product'') of
           None \<Rightarrow> Inl (HTTPException 404 ''Not found'')
         | Some x \<Rightarrow> Inr (serialize_doc str x)) \<and>
      get_blog str (Some d) ident =
        (case List.find (matches [(''_id'', VObjectId oid)]) (colls d ''blogpost'') of
           None \<Rightarrow> Inl (HTTPException 404 ''Not found'')
         | Some x \<Rightarrow> Inr (serialize_doc str x))) \<and>
   (matches [(''_id'', VObjectId oid)] x \<longleftrightarrow>
      get x ''_id'' = VObjectId oid \<or>
      (\<exists>xs. get x ''_id'' = VList xs \<and> VObjectId oid \<in> set xs)) \<and>
   get_product str None ident = Inl (HTTPException 404 ''Not found'') \<and>
   get_blog str None ident = Inl (HTTPException 404 ''Not found'')"
proof -
  have a: "ObjectId ident = Inl e \<longrightarrow>
      get_product str (Some d) ident = Inl (HTTPException 400 ''Invalid id'') \<and>
      get_blog str (Some d) ident = Inl (HTTPException 400 ''Invalid id'')"
    by (simp add: get_product_def get_blog_def)
  have b: "get_product str None ident = Inl (HTTPException 404 ''Not found'') \<and>
   get_blog str None ident = Inl (HTTPException 404 ''Not found'')"
    by (simp add: get_product_def get_blog_def)
  from a b get_product_parsed get_blog_parsed matches_id show ?thesis by blast
qed


theorem lookup_by_identifier_witness:
  "ObjectId ''not-an-id'' = Inl InvalidId \<and>
   get_product py_str (Some small_store) ''not-an-id'' = Inl (HTTPException 400 ''Invalid id'') \<and>
   ObjectId ''000000000000000000000002'' = Inr 2 \<and>
   get_product py_str (Some small_store) ''000000000000000000000002''
     = Inr [(''title'', VStr ''Card Sleeve''), (''price'', VFloat 29),
            (''id'', VStr ''000000000000000000000002'')] \<and>
   ObjectId ''00000000000000000000000a'' = Inr 10 \<and>
   get_product py_str (Some small_store) ''00000000000000000000000a''
     = Inl (HTTPException 404 ''Not found'')"
proof -
  have h1: "ObjectId ''not-an-id'' = Inl InvalidId"
    by (simp add: ObjectId_def)
  have h2: "ObjectId ''000000000000000000000002'' = Inr 2"
    by code_simp
  have h3: "ObjectId ''00000000000000000000000a'' = Inr 10"
    by code_simp
  have f2: "List.find (matches [(''_id'', VObjectId 2)]) (colls small_store ''product'')
      = Some [(''_id'', VObjectId 2), (''title'', VStr ''Card Sleeve''), (''price'', VFloat 29)]"
    by code_simp
  have f3: "List.find (matches [(''_id'', VObjectId 10)]) (colls small_store ''product'') = None"
    by code_simp
  have s: "serialize_doc py_str [(''_id'', VObjectId 2), (''title'', VStr ''Card Sleeve''), (''price'', VFloat 29)]
     = [(''title'', VStr ''Card Sleeve''), (''price'', VFloat 29),
            (''id'', VStr ''000000000000000000000002'')]"
    by code_simp
  show ?thesis
    using h1 h2 h3
      lookup_by_identifier [of "''not-an-id''" InvalidId py_str small_store 0 "[]"]
      lookup_by_identifier [of "''000000000000000000000002''" InvalidId py_str small_store 2 "[]"]
      lookup_by_identifier [of "''00000000000000000000000a''" InvalidId py_str small_store 10 "[]"]
    by (simp add: f2 f3 s)
qed

section \<open>Bounds of limit and skip\<close>

text \<open>
  C5. The claim: a \<^verbatim>\<open>limit\<close> above 100 or below 1 is rejected with status 400. The request is
  rejected, by the validation of the query parameters, and the status of that is 422.
\<close>

theorem limit_out_of_range_counterexample:
  "list_products py_str (Some small_store) None None None None None None (Some 101) None
     = Inl RequestValidationError \<and>
   status_code (list_products py_str (Some small_store) None None None None None None (Some 101) None) = 422 \<and>
   status_code (list_blogs py_str (Some small_store) (Some 0) None) = 422"
  by (simp add: list_products_def list_blogs_def products_query_ok_def blogs_query_ok_def query_ok_def)

text \<open>
  C5, as the code has it. A \<^verbatim>\<open>limit\<close> above 100 or below 1, or a \<^verbatim>\<open>skip\<close> below 0, is
  rejected by both list endpoints with a validation error, whatever the other parameters
  and the store are; nothing is clamped. The status of the response is 422.
\<close>

theorem limit_skip_out_of_range:
  "(limit = Some l \<and> (l < 1 \<or> 100 < l)) \<or> (skip = Some s \<and> s < 0) \<Longrightarrow>
   list_products str db q category min_price max_price min_rating featured limit skip
     = Inl RequestValidationError \<and>
   list_blogs str db limit skip = Inl RequestValidationError \<and>
   status_code (list_products str db q category min_price max_price min_rating featured limit skip) = 422 \<and>
   status_code (list_blogs str db limit skip) = 422"
  by (auto simp: list_products_def list_blogs_def products_query_ok_def blogs_query_ok_def query_ok_def)

theorem limit_skip_out_of_range_witness:
  "((Some 0 = Some (0::int) \<and> ((0::int) < 1 \<or> 100 < (0::int))) \<or> (Some (-1) = Some (-1::int) \<and> (-1::int) < 0)) \<and>
   list_products py_str (Some small_store) None None None None None None (Some 0) (Some (-1))
     = Inl RequestValidationError \<and>
   status_code (list_blogs py_str None (Some 0) (Some (-1))) = 422"
  using limit_skip_out_of_range [of "Some 0" 0 "Some (-1)" "-1" py_str "Some small_store"
      None None None None None None]
    limit_skip_out_of_range [of "Some 0" 0 "Some (-1)" "-1" py_str None
      None None None None None None]
  by simp

section \<open>Order creation\<close>

lemma validate_Order_payment_missing: "ob_payment b = Missing \<Longrightarrow> validate_Order b = None"
  by (simp add: validate_Order_def nested_def split: option.splits)

text \<open>
  C4. The claim: an order body without the \<^verbatim>\<open>payment\<close> object is accepted and stored with the
  payment \<^verbatim>\<open>{"method": "cod", "status": "pending"}\<close>. \<^verbatim>\<open>Order\<close> declares \<^verbatim>\<open>payment\<close> without a
  default, so the body is rejected before \<^verbatim>\<open>create_order\<close> runs, and the default that
  \<^verbatim>\<open>create_order\<close> passes to \<^verbatim>\<open>order_dict.get\<close> is never used. Here the code is evaluated on
  such a body: a validation error, and the store is unchanged.
\<close>

theorem order_without_payment_rejected:
  "create_order py_str (Some small_store) order_without_payment
     = (Inl RequestValidationError, Some small_store) \<and>
   status_code (fst (create_order py_str (Some small_store) order_without_payment)) = 422"
proof -
  have "ob_payment order_without_payment = Missing"
    by (simp add: order_without_payment_def)
  then have "validate_Order order_without_payment = None"
    by (rule validate_Order_payment_missing)
  then show ?thesis
    by (simp add: create_order_def)
qed

text \<open>
  The same body with an empty \<^verbatim>\<open>payment\<close> object is accepted: the defaults of \<^verbatim>\<open>PaymentInfo\<close>
  fill it.
\<close>

lemma order_with_empty_payment_persisted:
  "fst (create_order py_str (Some small_store) order_with_empty_payment)
     = Inr [(''order_id'', VStr ''000000000000000000000004''), (''status'', VStr ''created''),
            (''payment_url'', VStr ''https://example-pay.test/checkout/000000000000000000000004'')] \<and>
   map (\<lambda>d. get d ''payment'')
     (case snd (create_order py_str (Some small_store) order_with_empty_payment) of
        None \<Rightarrow> [] | Some d \<Rightarrow> colls d ''order'')
     = [VDict [(''method'', VStr ''cod''), (''status'', VStr ''pending'')]]"
  by code_simp

section \<open>The product filter\<close>

lemma matches_append: "matches (f1 @ f2) x \<longleftrightarrow> matches f1 x \<and> matches f2 x"
  by (simp add: matches_def)

lemma product_filter_parts:
  "product_filter q category min_price max_price min_rating featured =
     (case q of
        None \<Rightarrow> []
      | Some s \<Rightarrow>
          if s \<noteq> [] then [(''title'', VDict [(''$regex'', VStr s), (''$options'', VStr ''i'')])]
          else []) @
     (case category of
        None \<Rightarrow> []
      | Some c \<Rightarrow> if c \<noteq> [] then [(''category'', VStr c)] else []) @
     (if price_range min_price max_price \<noteq> []
      then [(''price'', VDict (price_range min_price max_price))] else []) @
     (case min_rating of None \<Rightarrow> [] | Some v \<Rightarrow> [(''rating'', VDict [(''$gte'', VFloat v)])]) @
     (case featured of None \<Rightarrow> [] | Some b \<Rightarrow> [(''featured'', VBool b)])"
  by (simp add: product_filter_def Let_def split: option.splits)

lemma price_range_cases:
  "price_range None None = []"
  "price_range (Some a) None = [(''$gte'', VFloat a)]"
  "price_range None (Some b) = [(''$lte'', VFloat b)]"
  "price_range (Some a) (Some b) = [(''$gte'', VFloat a), (''$lte'', VFloat b)]"
  by (simp_all add: price_range_def)

lemma map_of_product_filter_price:
  "map_of (product_filter q category min_price max_price min_rating featured) ''price'' =
     (if price_range min_price max_price \<noteq> [] then Some (VDict (price_range min_price max_price))
      else None)"
  by (simp add: product_filter_parts split: option.splits)

lemma field_values_number: "num_of v = Some p \<Longrightarrow> field_values (Some v) = [v]"
  by (cases v) simp_all

lemma matches_price:
  assumes "map_of x ''price'' = Some v" and "num_of v = Some p"
  shows "matches (if price_range mn mx \<noteq> [] then [(''price'', VDict (price_range mn mx))] else []) x
    \<longleftrightarrow> (case mn of None \<Rightarrow> True | Some a \<Rightarrow> a \<le> p) \<and> (case mx of None \<Rightarrow> True | Some b \<Rightarrow> p \<le> b)"
  using assms
  by (cases mn; cases mx)
     (simp_all add: price_range_cases matches_def field_values_number is_op_key_def op_match_def)

lemma matches_product_filter_price:
  assumes "map_of x ''price'' = Some v" and "num_of v = Some p"
  shows "matches (product_filter q c mn mx r f) x \<longleftrightarrow>
     matches (product_filter q c None None r f) x \<and>
     (case mn of None \<Rightarrow> True | Some a \<Rightarrow> a \<le> p) \<and> (case mx of None \<Rightarrow> True | Some b \<Rightarrow> p \<le> b)"
proof -
  have "matches (product_filter q c mn mx r f) x \<longleftrightarrow>
     matches (product_filter q c None None r f) x \<and>
     matches (if price_range mn mx \<noteq> [] then [(''price'', VDict (price_range mn mx))] else []) x"
    unfolding product_filter_parts [of q c mn mx] product_filter_parts [of q c None None]
    by (simp only: matches_append price_range_cases) (auto simp: matches_def)
  then show ?thesis
    using matches_price [OF assms] by simp
qed


lemma product_filter_supported:
  "filter_supported (product_filter q c mn mx r f) \<longleftrightarrow>
     (case q of None \<Rightarrow> True | Some s \<Rightarrow> s = [] \<or> regex_compile s \<noteq> None)"
  by (cases mn; cases mx)
     (auto simp: product_filter_parts price_range_cases filter_supported_def is_op_key_def
        op_supported_def split: option.splits)

lemma seed_database_empty:
  "seed_database (Some empty_store) = Inr (Some seeded_store)"
  by (simp add: seeded_store_def seed_database_def seed_collection_def count_documents_def
      filter_supported_def matches_def empty_store_def sample_products_def sample_posts_def
      insert_one_def)

lemma seeded_products:
  "colls seeded_store ''product'' =
     [(''_id'', VObjectId 0) # sample_products ! 0,
      (''_id'', VObjectId 1) # sample_products ! 1,
      (''_id'', VObjectId 2) # sample_products ! 2]"
  by (simp add: seeded_store_def seed_database_def seed_collection_def count_documents_def
      filter_supported_def matches_def empty_store_def sample_products_def sample_posts_def
      insert_one_def)

lemma sample_prices:
  "map_of ((''_id'', i) # sample_products ! 0) ''price'' = Some (VFloat 199)"
  "map_of ((''_id'', i) # sample_products ! 1) ''price'' = Some (VFloat 299)"
  "map_of ((''_id'', i) # sample_products ! 2) ''price'' = Some (VFloat 29)"
  by (simp_all add: sample_products_def)

lemma no_other_filter: "product_filter None None None None None None = []"
  by (simp add: product_filter_def price_range_def)

lemma seeded_price_scenario:
  "list_products str (Some seeded_store) None None (Some 100) (Some 250) None None None None
     = Inr [serialize_doc str ((''_id'', VObjectId 0) # sample_products ! 0)]"
proof -
  have ok: "products_query_ok (Some 100) (Some 250) None None None"
    by (simp add: products_query_ok_def query_ok_def)
  have sup: "filter_supported (product_filter None None (Some 100) (Some 250) None None)"
    by (simp add: product_filter_supported)
  have m0: "matches (product_filter None None (Some 100) (Some 250) None None)
              ((''_id'', VObjectId 0) # sample_products ! 0)"
    using matches_product_filter_price [OF sample_prices(1), of 199 None None "Some 100" "Some 250" None None]
    by (simp add: no_other_filter matches_def)
  have m1: "\<not> matches (product_filter None None (Some 100) (Some 250) None None)
              ((''_id'', VObjectId 1) # sample_products ! 1)"
    using matches_product_filter_price [OF sample_prices(2), of 299 None None "Some 100" "Some 250" None None]
    by simp
  have m2: "\<not> matches (product_filter None None (Some 100) (Some 250) None None)
              ((''_id'', VObjectId 2) # sample_products ! 2)"
    using matches_product_filter_price [OF sample_prices(3), of 29 None None "Some 100" "Some 250" None None]
    by simp
  show ?thesis
    by (simp add: list_products_def ok coll_find_def sup seeded_products m0 m1 [unfolded One_nat_def] m2
        cursor_skip_def cursor_limit_def query_default_def)
qed


lemma seeded_titles:
  "map (\<lambda>d. get d ''title'') (colls seeded_store ''product'')
     = [VStr ''Glass Card Pro'', VStr ''Metal Card X'', VStr ''Card Sleeve'']"
  by (simp add: seeded_products get_def sample_products_def)

lemma serialized_glass_card:
  "get (serialize_doc str ((''_id'', VObjectId 0) # sample_products ! 0)) ''title''
     = VStr ''Glass Card Pro'' \<and>
   get (serialize_doc str ((''_id'', VObjectId 0) # sample_products ! 0)) ''price'' = VFloat 199"
  by (simp add: serialize_doc_def get_def sample_products_def update_conv' delete_conv')

text \<open>
  C7. The filter carries a \<^verbatim>\<open>price\<close> condition when a bound is supplied, and the condition
  holds the supplied bounds only. On a document with a numeric price the condition is the
  inclusive range test, joined to the rest of the filter. On the seeded store the bounds 100
  and 250 select the product ``Glass Card Pro'' (price 199) and nothing else.
\<close>

theorem price_range_filter:
  "map_of (product_filter q c min_price max_price r f) ''price'' =
     (case (min_price, max_price) of
        (None, None) \<Rightarrow> None
      | (Some a, None) \<Rightarrow> Some (VDict [(''$gte'', VFloat a)])
      | (None, Some b) \<Rightarrow> Some (VDict [(''$lte'', VFloat b)])
      | (Some a, Some b) \<Rightarrow> Some (VDict [(''$gte'', VFloat a), (''$lte'', VFloat b)])) \<and>
   (map_of x ''price'' = Some v \<and> num_of v = Some p \<longrightarrow>
      (matches (product_filter q c min_price max_price r f) x \<longleftrightarrow>
         matches (product_filter q c None None r f) x \<and>
         (case min_price of None \<Rightarrow> True | Some a \<Rightarrow> a \<le> p) \<and>
         (case max_price of None \<Rightarrow> True | Some b \<Rightarrow> p \<le> b))) \<and>
   seed_database (Some empty_store) = Inr (Some seeded_store) \<and>
   map (\<lambda>d. get d ''title'') (colls seeded_store ''product'')
     = [VStr ''Glass Card Pro'', VStr ''Metal Card X'', VStr ''Card Sleeve''] \<and>
   list_products str (Some seeded_store) None None (Some 100) (Some 250) None None None None
     = Inr [serialize_doc str ((''_id'', VObjectId 0) # sample_products ! 0)] \<and>
   get (serialize_doc str ((''_id'', VObjectId 0) # sample_products ! 0)) ''title''
     = VStr ''Glass Card Pro'' \<and>
   get (serialize_doc str ((''_id'', VObjectId 0) # sample_products ! 0)) ''price'' = VFloat 199"
proof -
  have a: "map_of (product_filter q c min_price max_price r f) ''price'' =
     (case (min_price, max_price) of
        (None, None) \<Rightarrow> None
      | (Some a, None) \<Rightarrow> Some (VDict [(''$gte'', VFloat a)])
      | (None, Some b) \<Rightarrow> Some (VDict [(''$lte'', VFloat b)])
      | (Some a, Some b) \<Rightarrow> Some (VDict [(''$gte'', VFloat a), (''$lte'', VFloat b)]))"
    by (cases min_price; cases max_price)
       (simp_all add: map_of_product_filter_price price_range_cases)
  have b: "map_of x ''price'' = Some v \<and> num_of v = Some p \<longrightarrow>
      (matches (product_filter q c min_price max_price r f) x \<longleftrightarrow>
         matches (product_filter q c None None r f) x \<and>
         (case min_price of None \<Rightarrow> True | Some a \<Rightarrow> a \<le> p) \<and>
         (case max_price of None \<Rightarrow> True | Some b \<Rightarrow> p \<le> b))"
    using matches_product_filter_price by blast
  from a b seed_database_empty seeded_titles seeded_price_scenario serialized_glass_card
  show ?thesis by blast
qed

theorem price_range_filter_witness:
  "map_of ((''_id'', VObjectId 0) # sample_products ! 0) ''price'' = Some (VFloat 199) \<and>
   num_of (VFloat 199) = Some 199 \<and>
   matches (product_filter None None (Some 100) (Some 250) None None)
     ((''_id'', VObjectId 0) # sample_products ! 0) \<and>
   list_products py_str (Some seeded_store) None None (Some 100) (Some 250) None None None None
     = Inr [serialize_doc py_str ((''_id'', VObjectId 0) # sample_products ! 0)]"
proof -
  have h1: "map_of ((''_id'', VObjectId 0) # sample_products ! 0) ''price'' = Some (VFloat 199)"
    by (rule sample_prices)
  have h2: "num_of (VFloat 199) = Some 199"
    by simp
  have h3: "matches (product_filter None None None None None None) y" for y
    by (simp add: no_other_filter matches_def)
  show ?thesis
    using h1 h2 h3
      price_range_filter [of None None "Some 100" "Some 250" None None
        "(''_id'', VObjectId 0) # sample_products ! 0" "VFloat 199" 199 py_str]
    by simp
qed

section \<open>Title search\<close>












section \<open>Registration\<close>

lemma email_filter_supported: "filter_supported [(''email'', VStr e)]"
  by (simp add: filter_supported_def is_op_key_def)

lemma matches_email:
  "matches [(''email'', VStr e)] u \<longleftrightarrow>
     get u ''email'' = VStr e \<or> (\<exists>xs. get u ''email'' = VList xs \<and> VStr e \<in> set xs)"
proof (cases "map_of u ''email''")
  case None
  then show ?thesis by (simp add: matches_def eq_match_def get_def)
next
  case (Some v)
  then show ?thesis
    by (cases v) (auto simp: matches_def eq_match_def get_def bson_eq_no_number list_ex_iff)
qed

lemma matches_email_nonempty: "matches [(''email'', VStr e)] u \<Longrightarrow> u \<noteq> []"
  by (auto simp: matches_def eq_match_def)

lemma find_one_email:
  "find_one d ''user'' [(''email'', VStr e)]
     = Inr (List.find (matches [(''email'', VStr e)]) (colls d ''user''))"
  by (simp add: find_one_def coll_find_def email_filter_supported first_of_filter)

lemma register_taken:
  assumes "\<exists>u \<in> set (colls d ''user''). get u ''email'' = VStr (r_email user)"
  shows "register (Some d) user = (Inl (HTTPException 400 ''Email already registered''), Some d)"
proof -
  from assms have "\<exists>u \<in> set (colls d ''user''). matches [(''email'', VStr (r_email user))] u"
    by (auto simp: matches_email)
  then obtain u where f: "List.find (matches [(''email'', VStr (r_email user))]) (colls d ''user'') = Some u"
    by (cases "List.find (matches [(''email'', VStr (r_email user))]) (colls d ''user'')")
       (auto simp: find_None_iff)
  then have "matches [(''email'', VStr (r_email user))] u"
    by (auto simp: find_Some_iff)
  then have "u \<noteq> []" by (rule matches_email_nonempty)
  then show ?thesis
    by (simp add: register_def find_one_email f doc_truthy_def)
qed

lemma register_free:
  assumes "\<forall>u \<in> set (colls d ''user''). \<exists>e. get u ''email'' = VStr e \<and> e \<noteq> r_email user"
  shows "register (Some d) user =
     (Inr [(''status'', VStr ''ok''), (''user_id'', VObjectId (next_oid d))],
      Some (d\<lparr>colls := (colls d)(''user'' :=
                 colls d ''user'' @ [(''_id'', VObjectId (next_oid d)) # RegisterIn_dump user]),
              next_oid := Suc (next_oid d)\<rparr>))"
proof -
  from assms have "\<forall>u \<in> set (colls d ''user''). \<not> matches [(''email'', VStr (r_email user))] u"
    by (auto simp: matches_email)
  then have f: "List.find (matches [(''email'', VStr (r_email user))]) (colls d ''user'') = None"
    by (simp add: find_None_iff)
  have noid: "map_of (RegisterIn_dump user) ''_id'' = None"
    by (simp add: RegisterIn_dump_def)
  show ?thesis
    by (simp add: register_def find_one_email f doc_truthy_def create_document_def
        insert_one_def noid)
qed

text \<open>
  C8. With a store handle: when a stored user has the email of the request, the same string
  character by character, registration is refused with 400 and the store is unchanged; when
  every stored user has another email, registration succeeds, the user is appended to the
  collection under a fresh identifier, and the response carries that identifier.
\<close>

theorem register_by_email:
  "((\<exists>u \<in> set (colls d ''user''). get u ''email'' = VStr (r_email user)) \<longrightarrow>
      register (Some d) user = (Inl (HTTPException 400 ''Email already registered''), Some d)) \<and>
   ((\<forall>u \<in> set (colls d ''user''). \<exists>e. get u ''email'' = VStr e \<and> e \<noteq> r_email user) \<longrightarrow>
      register (Some d) user =
        (Inr [(''status'', VStr ''ok''), (''user_id'', VObjectId (next_oid d))],
         Some (d\<lparr>colls := (colls d)(''user'' :=
                    colls d ''user'' @ [(''_id'', VObjectId (next_oid d)) # RegisterIn_dump user]),
                 next_oid := Suc (next_oid d)\<rparr>)))"
  using register_taken register_free by blast


theorem register_by_email_witness:
  "list_ex (\<lambda>u. get u ''email'' = VStr ''a@x.com'') (colls small_store ''user'') \<and>
   status_code (fst (register (Some small_store)
      \<lparr>r_name = ''B'', r_email = ''a@x.com'', r_password = ''q''\<rparr>)) = 400 \<and>
   list_all (\<lambda>u. get u ''email'' = VStr ''a@x.com'' \<and> ''a@x.com'' \<noteq> ''A@x.com'')
      (colls small_store ''user'') \<and>
   fst (register (Some small_store) \<lparr>r_name = ''B'', r_email = ''A@x.com'', r_password = ''q''\<rparr>)
     = Inr [(''status'', VStr ''ok''), (''user_id'', VObjectId 4)]"
proof -
  have h1: "\<exists>u \<in> set (colls small_store ''user''). get u ''email''
      = VStr (r_email \<lparr>r_name = ''B'', r_email = ''a@x.com'', r_password = ''q''\<rparr>)"
    by (simp add: small_store_def get_def)
  have h2: "\<forall>u \<in> set (colls small_store ''user''). \<exists>e. get u ''email'' = VStr e \<and>
       e \<noteq> r_email \<lparr>r_name = ''B'', r_email = ''A@x.com'', r_password = ''q''\<rparr>"
    by (simp add: small_store_def get_def)
  have n: "next_oid small_store = 4"
    by (simp add: small_store_def)
  have a: "list_ex (\<lambda>u. get u ''email'' = VStr ''a@x.com'') (colls small_store ''user'')"
    by (simp add: small_store_def get_def)
  have b: "list_all (\<lambda>u. get u ''email'' = VStr ''a@x.com'' \<and> ''a@x.com'' \<noteq> ''A@x.com'')
      (colls small_store ''user'')"
    by (simp add: small_store_def get_def)
  show ?thesis
    using h1 h2 a b
      register_by_email [of small_store "\<lparr>r_name = ''B'', r_email = ''a@x.com'', r_password = ''q''\<rparr>"]
      register_by_email [of small_store "\<lparr>r_name = ''B'', r_email = ''A@x.com'', r_password = ''q''\<rparr>"]
    by (simp add: n)
qed

section \<open>Serialization of returned documents\<close>

lemma coll_find_subset: "coll_find d name filt = Inr xs \<Longrightarrow> set xs \<subseteq> set (colls d name)"
  by (auto simp: coll_find_def split: if_splits)

lemma find_one_mem: "find_one d name filt = Inr (Some x) \<Longrightarrow> x \<in> set (colls d name)"
  by (auto simp: find_one_def split: sum.splits list.splits dest!: coll_find_subset)

lemma set_insert_desc: "set (insert_desc d es) = insert d (set es)"
  by (induction es) auto

lemma set_sort_id_desc: "set (sort_id_desc ds) = set ds"
  by (induction ds) (simp_all add: sort_id_desc_def set_insert_desc)

lemma set_cursor_skip: "set (cursor_skip n ds) \<subseteq> set ds"
  by (simp add: cursor_skip_def set_drop_subset)

lemma set_cursor_limit: "set (cursor_limit n ds) \<subseteq> set ds"
  by (simp add: cursor_limit_def set_take_subset)

lemma list_products_serialized:
  assumes "list_products str (Some d) q c mn mx r f limit skip = Inr rs"
  shows "\<exists>xs. rs = map (serialize_doc str) xs \<and> set xs \<subseteq> set (colls d ''product'')"
proof -
  from assms obtain cur where
    cur: "coll_find d ''product'' (product_filter q c mn mx r f) = Inr cur" and
    rs: "rs = map (serialize_doc str)
               (cursor_limit (query_default 50 limit) (cursor_skip (query_default 0 skip) cur))"
    by (auto simp: list_products_def split: if_splits sum.splits)
  have "set (cursor_limit (query_default 50 limit) (cursor_skip (query_default 0 skip) cur))
          \<subseteq> set (colls d ''product'')"
    using set_cursor_limit set_cursor_skip coll_find_subset [OF cur] by blast
  with rs show ?thesis by blast
qed

lemma list_blogs_serialized:
  assumes "list_blogs str (Some d) limit skip = Inr rs"
  shows "\<exists>xs. rs = map (serialize_doc str) xs \<and> set xs \<subseteq> set (colls d ''blogpost'')"
proof -
  from assms obtain cur where
    cur: "coll_find d ''blogpost'' [] = Inr cur" and
    rs: "rs = map (serialize_doc str)
               (cursor_limit (query_default 20 limit)
                  (cursor_skip (query_default 0 skip) (sort_id_desc cur)))"
    by (auto simp: list_blogs_def split: if_splits sum.splits)
  have "set (cursor_limit (query_default 20 limit)
               (cursor_skip (query_default 0 skip) (sort_id_desc cur)))
          \<subseteq> set (colls d ''blogpost'')"
    using set_cursor_limit set_cursor_skip coll_find_subset [OF cur] set_sort_id_desc by blast
  with rs show ?thesis by blast
qed

lemma get_product_serialized:
  "get_product str (Some d) ident = Inr res \<Longrightarrow>
     \<exists>x \<in> set (colls d ''product''). res = serialize_doc str x"
  by (auto simp: get_product_def split: sum.splits option.splits if_splits dest: find_one_mem)

lemma get_blog_serialized:
  "get_blog str (Some d) ident = Inr res \<Longrightarrow>
     \<exists>x \<in> set (colls d ''blogpost''). res = serialize_doc str x"
  by (auto simp: get_blog_def split: sum.splits option.splits if_splits dest: find_one_mem)

lemma login_serialized:
  "login str (Some d) payload = Inr res \<Longrightarrow>
     \<exists>x \<in> set (colls d ''user''). map_of res ''user'' = Some (VDict (serialize_doc str x))"
  by (auto simp: login_def split: sum.splits option.splits if_splits dest: find_one_mem)

lemma serialize_doc_with_id:
  assumes "truthy (get x ''_id'')"
  shows "map_of (serialize_doc str x) =
           ((map_of x)(''_id'' := None))(''id'' \<mapsto> VStr (str (get x ''_id'')))"
proof -
  from assms have "x \<noteq> []" by (rule truthy_get_nonempty)
  with assms show ?thesis
    by (simp add: serialize_doc_def update_conv' delete_conv')
qed

lemma serialize_doc_without_id:
  assumes "x \<noteq> []" and "\<not> truthy (get x ''_id'')"
  shows "serialize_doc str x = AList.update ''id'' VNone x"
    and "map_of (serialize_doc str x) = (map_of x)(''id'' \<mapsto> VNone)"
  using assms by (simp_all add: serialize_doc_def update_conv')

lemma get_ObjectId_truthy: "get x ''_id'' = VObjectId oid \<Longrightarrow> truthy (get x ''_id'')"
  by simp

lemma get_absent: "map_of x k = None \<Longrightarrow> \<not> truthy (get x k)"
  by (simp add: get_def)

text \<open>
  C1. Serialization takes a truthy \<^verbatim>\<open>_id\<close> out of the document and puts its string under
  \<^verbatim>\<open>id\<close>; the identifiers of the store are \<^verbatim>\<open>ObjectId\<close>s, which are truthy. A document
  without \<^verbatim>\<open>_id\<close> gets \<^verbatim>\<open>id\<close> set to \<^verbatim>\<open>None\<close> (so does one whose \<^verbatim>\<open>_id\<close> is falsy), the empty
  document is returned as it is, and no case raises. Every document that a listing, a
  lookup or a login returns is the serialization of a document of the collection.
\<close>

theorem serialize_doc_identifier:
  "(truthy (get x ''_id'') \<longrightarrow>
      map_of (serialize_doc str x) =
        ((map_of x)(''_id'' := None))(''id'' \<mapsto> VStr (str (get x ''_id'')))) \<and>
   (get x ''_id'' = VObjectId oid \<longrightarrow>
      map_of (serialize_doc str x) ''_id'' = None \<and>
      map_of (serialize_doc str x) ''id'' = Some (VStr (str (VObjectId oid)))) \<and>
   (x \<noteq> [] \<and> \<not> truthy (get x ''_id'') \<longrightarrow>
      map_of (serialize_doc str x) = (map_of x)(''id'' \<mapsto> VNone)) \<and>
   (map_of x ''_id'' = None \<longrightarrow> \<not> truthy (get x ''_id'')) \<and>
   serialize_doc str [] = [] \<and>
   (list_products str (Some d) q c mn mx r f limit skip = Inr rs \<longrightarrow>
      (\<exists>xs. rs = map (serialize_doc str) xs \<and> set xs \<subseteq> set (colls d ''product''))) \<and>
   (list_blogs str (Some d) limit skip = Inr rs \<longrightarrow>
      (\<exists>xs. rs = map (serialize_doc str) xs \<and> set xs \<subseteq> set (colls d ''blogpost''))) \<and>
   (get_product str (Some d) ident = Inr res \<longrightarrow>
      (\<exists>y \<in> set (colls d ''product''). res = serialize_doc str y)) \<and>
   (get_blog str (Some d) ident = Inr res \<longrightarrow>
      (\<exists>y \<in> set (colls d ''blogpost''). res = serialize_doc str y)) \<and>
   (login str (Some d) payload = Inr res \<longrightarrow>
      (\<exists>y \<in> set (colls d ''user''). map_of res ''user'' = Some (VDict (serialize_doc str y))))"
proof -
  have a: "truthy (get x ''_id'') \<longrightarrow>
      map_of (serialize_doc str x) =
        ((map_of x)(''_id'' := None))(''id'' \<mapsto> VStr (str (get x ''_id'')))"
    using serialize_doc_with_id by blast
  have b: "get x ''_id'' = VObjectId oid \<longrightarrow>
      map_of (serialize_doc str x) ''_id'' = None \<and>
      map_of (serialize_doc str x) ''id'' = Some (VStr (str (VObjectId oid)))"
  proof
    assume i: "get x ''_id'' = VObjectId oid"
    then have "truthy (get x ''_id'')" by simp
    from serialize_doc_with_id [OF this, of str] i
    show "map_of (serialize_doc str x) ''_id'' = None \<and>
      map_of (serialize_doc str x) ''id'' = Some (VStr (str (VObjectId oid)))"
      by simp
  qed
  have c: "x \<noteq> [] \<and> \<not> truthy (get x ''_id'') \<longrightarrow>
      map_of (serialize_doc str x) = (map_of x)(''id'' \<mapsto> VNone)"
    using serialize_doc_without_id(2) by blast
  have e: "map_of x ''_id'' = None \<longrightarrow> \<not> truthy (get x ''_id'')"
    using get_absent by blast
  have f: "serialize_doc str [] = []"
    by (simp add: serialize_doc_def)
  have g: "list_products str (Some d) q c mn mx r f limit skip = Inr rs \<longrightarrow>
      (\<exists>xs. rs = map (serialize_doc str) xs \<and> set xs \<subseteq> set (colls d ''product''))"
    using list_products_serialized by (intro impI)
  have h: "list_blogs str (Some d) limit skip = Inr rs \<longrightarrow>
      (\<exists>xs. rs = map (serialize_doc str) xs \<and> set xs \<subseteq> set (colls d ''blogpost''))"
    using list_blogs_serialized by (intro impI)
  have i: "get_product str (Some d) ident = Inr res \<longrightarrow>
      (\<exists>y \<in> set (colls d ''product''). res = serialize_doc str y)"
    using get_product_serialized by (intro impI)
  have j: "get_blog str (Some d) ident = Inr res \<longrightarrow>
      (\<exists>y \<in> set (colls d ''blogpost''). res = serialize_doc str y)"
    using get_blog_serialized by (intro impI)
  have k: "login str (Some d) payload = Inr res \<longrightarrow>
      (\<exists>y \<in> set (colls d ''user''). map_of res ''user'' = Some (VDict (serialize_doc str y)))"
    using login_serialized by (intro impI)
  from a b c e f g h i j k show ?thesis
    by (intro conjI) assumption+
qed

theorem serialize_doc_identifier_witness:
  "truthy (get [(''_id'', VObjectId 2), (''title'', VStr ''Card Sleeve'')] ''_id'') \<and>
   map_of (serialize_doc py_str [(''_id'', VObjectId 2), (''title'', VStr ''Card Sleeve'')]) ''_id''
     = None \<and>
   map_of (serialize_doc py_str [(''_id'', VObjectId 2), (''title'', VStr ''Card Sleeve'')]) ''id''
     = Some (VStr ''000000000000000000000002'') \<and>
   map_of (serialize_doc py_str [(''_id'', VObjectId 2), (''title'', VStr ''Card Sleeve'')]) ''title''
     = Some (VStr ''Card Sleeve'') \<and>
   map_of [(''title'', VStr ''Card Sleeve'')] ''_id'' = None \<and>
   map_of (serialize_doc py_str [(''title'', VStr ''Card Sleeve'')]) ''id'' = Some VNone \<and>
   get_product py_str (Some small_store) ''000000000000000000000002''
     = Inr (serialize_doc py_str
         [(''_id'', VObjectId 2), (''title'', VStr ''Card Sleeve''), (''price'', VFloat 29)]) \<and>
   list_ex (\<lambda>y. serialize_doc py_str
         [(''_id'', VObjectId 2), (''title'', VStr ''Card Sleeve''), (''price'', VFloat 29)]
       = serialize_doc py_str y) (colls small_store ''product'')"
proof -
  let ?x = "[(''_id'', VObjectId 2), (''title'', VStr ''Card Sleeve'')]"
  let ?y = "[(''title'', VStr ''Card Sleeve'')]"
  let ?z = "[(''_id'', VObjectId 2), (''title'', VStr ''Card Sleeve''), (''price'', VFloat 29)]"
  have h1: "get ?x ''_id'' = VObjectId 2" by (simp add: get_def)
  have h2: "?y \<noteq> [] \<and> \<not> truthy (get ?y ''_id'')" by (simp add: get_def)
  have h3: "get_product py_str (Some small_store) ''000000000000000000000002''
     = Inr (serialize_doc py_str ?z)"
    by code_simp
  have s: "py_str (VObjectId 2) = ''000000000000000000000002''" by code_simp
  have "list_ex (\<lambda>y. serialize_doc py_str ?z = serialize_doc py_str y) (colls small_store ''product'')"
    using serialize_doc_identifier [of ?z py_str 2 small_store None None None None None None
        None None "[]" "''000000000000000000000002''" "serialize_doc py_str ?z"] h3
    by (simp add: list_ex_iff)
  then show ?thesis
    using h1 h2 h3 s serialize_doc_identifier [of ?x py_str 2] serialize_doc_identifier [of ?y py_str 2]
    by simp
qed

end
